theory Spec2Isabelle
  imports Complex_Main "HOL-Library.Sublist"
begin

section \<open>Lookup tables of get\_hdr\_metadata.py\<close>

text \<open>
  Python strings are modelled as \<open>string\<close>, Python lists of strings as \<open>string list\<close>
  and the constant dictionaries as association lists read with \<open>map_of\<close> (the keys of
  every table are distinct, so \<open>map_of\<close> is the dictionary lookup).
\<close>

definition x265_valid_color_matrix :: "string list" where
  "x265_valid_color_matrix =
     [''gbr'', ''bt709'', ''unknown'', ''reserved'', ''fcc'', ''bt470bg'', ''smpte170m'',
      ''smpte240m'', ''ycgco'', ''bt2020nc'', ''bt2020c'', ''smpte2085'',
      ''chroma-derived-nc'', ''chroma-derived-c'', ''ictcp'']"

definition x265_color_matrix_mapping :: "(string \<times> string) list" where
  "x265_color_matrix_mapping = [(''bt2020_ncl'', ''bt2020nc''), (''bt2020_cl'', ''bt2020c'')]"

definition libaom_valid_matrix_coefficients :: "string list" where
  "libaom_valid_matrix_coefficients =
     [''bt709'', ''fcc73'', ''bt470bg'', ''bt601'', ''smpte240'', ''ycgco'',
      ''bt2020ncl'', ''bt2020cl'', ''smpte2085'', ''chromncl'', ''chromcl'', ''ictcp'']"

definition libaom_matrix_coefficients_mapping :: "(string \<times> string) list" where
  "libaom_matrix_coefficients_mapping =
     [(''fcc'', ''fcc73''),
      (''smpte240m'', ''smpte240''),
      (''bt2020nc'', ''bt2020ncl''),
      (''bt2020_ncl'', ''bt2020ncl''),
      (''bt2020c'', ''bt2020cl''),
      (''bt2020_cl'', ''bt2020cl''),
      (''chroma-derived-nc'', ''chromncl''),
      (''chroma-derived-c'', ''chromcl'')]"

text \<open>\<open>libaom_get_matrix_coefficients\<close>: the valid list first, then the alias table, else \<open>None\<close>.\<close>

definition libaom_get_matrix_coefficients :: "string \<Rightarrow> string option" where
  "libaom_get_matrix_coefficients color_space =
     (if color_space \<in> set libaom_valid_matrix_coefficients then Some color_space
      else if map_of libaom_matrix_coefficients_mapping color_space \<noteq> None
           then map_of libaom_matrix_coefficients_mapping color_space
      else None)"

definition libsvtav1_color_primaries_mapping :: "(string \<times> int) list" where
  "libsvtav1_color_primaries_mapping =
     [(''bt709'', 1), (''bt470m'', 4), (''bt470bg'', 5), (''bt601'', 6), (''smpte240'', 7),
      (''film'', 8), (''bt2020'', 9), (''xyz'', 10), (''smpte431'', 11), (''smpte432'', 12),
      (''ebu3213'', 22)]"

text \<open>\<open>dict.get(key, 2)\<close>: the table's value, 2 when the key is absent.\<close>

definition libsvtav1_get_cp_code :: "string \<Rightarrow> int" where
  "libsvtav1_get_cp_code color_primaries =
     (case map_of libsvtav1_color_primaries_mapping color_primaries of
        Some c \<Rightarrow> c | None \<Rightarrow> 2)"

definition libsvtav1_transfer_characteristics_mapping :: "(string \<times> int) list" where
  "libsvtav1_transfer_characteristics_mapping =
     [(''bt709'', 1), (''bt470m'', 4), (''bt470bg'', 5), (''bt601'', 6), (''smpte240'', 7),
      (''linear'', 8), (''log100'', 9), (''log100-sqrt10'', 10), (''iec61966'', 11),
      (''bt1361'', 12), (''srgb'', 13), (''bt2020-10'', 14), (''bt2020-12'', 15),
      (''smpte2084'', 16), (''smpte428'', 17), (''hlg'', 18)]"

definition libsvtav1_get_tch_code :: "string \<Rightarrow> int" where
  "libsvtav1_get_tch_code transfer_characteristics =
     (case map_of libsvtav1_transfer_characteristics_mapping transfer_characteristics of
        Some c \<Rightarrow> c | None \<Rightarrow> 2)"

section \<open>Rendering integers: Python's \<open>str(int)\<close>\<close>

definition digit_char :: "nat \<Rightarrow> char" where
  "digit_char n = ''0123456789'' ! n"

fun str_nat :: "nat \<Rightarrow> string" where
  "str_nat n = (if n < 10 then [digit_char n] else str_nat (n div 10) @ [digit_char (n mod 10)])"

declare str_nat.simps [simp del]

text \<open>What an f-string writes for an \<open>int\<close>: decimal digits, a minus sign when negative.\<close>

definition str_int :: "int \<Rightarrow> string" where
  "str_int i = (if i < 0 then CHR ''-'' # str_nat (nat (- i)) else str_nat (nat i))"

section \<open>ColorData\<close>

record ColorData =
  pix_fmt :: string
  color_space :: string
  color_primaries :: string
  color_transfer :: string

definition ColorData_str :: "ColorData \<Rightarrow> string" where
  "ColorData_str self =
     ''pix_fmt: '' @ pix_fmt self @ [CHR 0x0A] @ ''color_space: '' @ color_space self @
     [CHR 0x0A] @ ''color_primaries: '' @ color_primaries self @
     [CHR 0x0A] @ ''color_transfer: '' @ color_transfer self"

definition to_ffmpeg_options :: "ColorData \<Rightarrow> string" where
  "to_ffmpeg_options self =
     ''-pix_fmt '' @ pix_fmt self @ '' -colorspace '' @ color_space self @ '' '' @
     ''-color_trc '' @ color_transfer self @ '' -color_primaries '' @ color_primaries self"

definition ColorData_to_x265_params :: "ColorData \<Rightarrow> string" where
  "ColorData_to_x265_params self =
     (if color_space self \<in> set x265_valid_color_matrix
        then ''colormatrix='' @ color_space self
      else if map_of x265_color_matrix_mapping (color_space self) \<noteq> None
        then ''colormatrix='' @ the (map_of x265_color_matrix_mapping (color_space self))
      else '''')"

definition to_libaom_av1_params :: "ColorData \<Rightarrow> string" where
  "to_libaom_av1_params self =
     (let res = ''color-primaries='' @ color_primaries self @
                '':transfer-characteristics='' @ color_transfer self;
          mc = libaom_get_matrix_coefficients (color_space self)
      in case mc of
           Some m \<Rightarrow> res @ '':matrix-coefficients='' @ m
         | None \<Rightarrow> res)"

text \<open>Python's \<open>"bt2020" in s\<close> on strings is the contiguous-substring test \<open>sublist\<close>.\<close>

definition ColorData_to_libsvtav1_params :: "ColorData \<Rightarrow> string" where
  "ColorData_to_libsvtav1_params self =
     (let res = ''color-primaries='' @ str_int (libsvtav1_get_cp_code (color_primaries self));
          res = res @ '':transfer-characteristics=''
                    @ str_int (libsvtav1_get_tch_code (color_transfer self))
      in if sublist ''bt2020'' (color_space self)
           then res @ '':matrix-coefficients=9''
         else res)"

section \<open>Python exceptions and values\<close>

datatype error =
    KeyError string
  | IndexError
  | ValueError
  | ZeroDivisionError
  | OverflowError
  | TypeError
  | AttributeError

text \<open>Sequencing of fallible steps: the first exception raised ends the computation.\<close>

definition and_then :: "error + 'a \<Rightarrow> ('a \<Rightarrow> error + 'b) \<Rightarrow> error + 'b" where
  "and_then m f = (case m of Inl e \<Rightarrow> Inl e | Inr x \<Rightarrow> f x)"

section \<open>Python floats (IEEE 754 binary64, round to nearest, ties to even)\<close>

text \<open>
  \<open>Finite s m e\<close> is the double with sign bit \<open>s\<close> and magnitude \<open>m * 2 ^ e\<close> (both zeros
  exist); every finite double has this form with \<open>m \<le> 2 ^ 53\<close> and \<open>e \<ge> - 1074\<close>.
\<close>

datatype pyfloat = Finite bool nat int | Infinity bool | NaN

fun bit_length :: "nat \<Rightarrow> nat" where
  "bit_length n = (if n = 0 then 0 else Suc (bit_length (n div 2)))"

declare bit_length.simps [simp del]

text \<open>The integer nearest to \<open>a / b\<close>, a tie going to the even one.\<close>

definition round_half_even :: "nat \<Rightarrow> nat \<Rightarrow> nat" where
  "round_half_even a b =
     (let q = a div b; r = a mod b
      in if 2 * r < b then q
         else if b < 2 * r then q + 1
         else if even q then q else q + 1)"

text \<open>
  The floor of the binary logarithm of \<open>a / b\<close> for positive \<open>a\<close>, \<open>b\<close>: the difference
  of the bit lengths, or one less.
\<close>

definition float_exponent :: "nat \<Rightarrow> nat \<Rightarrow> int" where
  "float_exponent a b =
     (let d = int (bit_length a) - int (bit_length b)
      in if b * 2 ^ nat d \<le> a * 2 ^ nat (- d) then d else d - 1)"

text \<open>
  The double nearest to \<open>a / b\<close> (\<open>a, b > 0\<close>) as mantissa and exponent: 53 significant
  bits, the exponent never below that of the subnormals.
\<close>

definition round_to_double :: "nat \<Rightarrow> nat \<Rightarrow> nat \<times> int" where
  "round_to_double a b =
     (let e = max (float_exponent a b - 52) (- 1074)
      in (round_half_even (a * 2 ^ nat (- e)) (b * 2 ^ nat e), e))"

definition make_float :: "bool \<Rightarrow> nat \<Rightarrow> nat \<Rightarrow> pyfloat" where
  "make_float neg a b =
     (if a = 0 then Finite neg 0 0
      else case round_to_double a b of
        (m, e) \<Rightarrow> if 0 \<le> e \<and> 2 ^ 1024 \<le> m * 2 ^ nat e then Infinity neg else Finite neg m e)"

text \<open>
  Python's \<open>a / b\<close> on two \<open>int\<close>s: the correctly rounded quotient; \<open>ZeroDivisionError\<close>
  for \<open>b = 0\<close>, \<open>OverflowError\<close> when the quotient is too large for a float.
\<close>

definition int_true_div :: "int \<Rightarrow> int \<Rightarrow> error + pyfloat" where
  "int_true_div a b =
     (if b = 0 then Inl ZeroDivisionError
      else case make_float ((a < 0) \<noteq> (b < 0)) (nat \<bar>a\<bar>) (nat \<bar>b\<bar>) of
             Infinity s \<Rightarrow> Inl OverflowError
           | f \<Rightarrow> Inr f)"

text \<open>The conversion of an \<open>int\<close> operand of a float operation.\<close>

definition int_to_float :: "int \<Rightarrow> error + pyfloat" where
  "int_to_float n =
     (case make_float (n < 0) (nat \<bar>n\<bar>) 1 of
        Infinity s \<Rightarrow> Inl OverflowError
      | f \<Rightarrow> Inr f)"

fun float_mul :: "pyfloat \<Rightarrow> pyfloat \<Rightarrow> pyfloat" where
  "float_mul (Finite s1 m1 e1) (Finite s2 m2 e2) =
     make_float (s1 \<noteq> s2) (m1 * m2 * 2 ^ nat (e1 + e2)) (2 ^ nat (- (e1 + e2)))"
| "float_mul (Finite s1 m1 e1) (Infinity s2) = (if m1 = 0 then NaN else Infinity (s1 \<noteq> s2))"
| "float_mul (Infinity s1) (Finite s2 m2 e2) = (if m2 = 0 then NaN else Infinity (s1 \<noteq> s2))"
| "float_mul (Infinity s1) (Infinity s2) = Infinity (s1 \<noteq> s2)"
| "float_mul NaN y = NaN"
| "float_mul x NaN = NaN"

text \<open>Python's \<open>int(x)\<close> on a float: truncation toward zero.\<close>

fun int_of_float :: "pyfloat \<Rightarrow> error + int" where
  "int_of_float (Finite s m e) =
     (let t = (if 0 \<le> e then int m * 2 ^ nat e else int (m div 2 ^ nat (- e)))
      in Inr (if s then - t else t))"
| "int_of_float (Infinity s) = Inl OverflowError"
| "int_of_float NaN = Inl ValueError"

text \<open>
  \<open>round(x, 4)\<close>: the double nearest to the decimal with four places nearest to \<open>x\<close>
  (ties to even); \<open>scaled4 m e\<close> is that decimal times \<open>10 ^ 4\<close>.
\<close>

definition scaled4 :: "nat \<Rightarrow> int \<Rightarrow> nat" where
  "scaled4 m e = round_half_even (m * 10000 * 2 ^ nat e) (2 ^ nat (- e))"

fun round4 :: "pyfloat \<Rightarrow> error + pyfloat" where
  "round4 (Finite s m e) =
     (case make_float s (scaled4 m e) 10000 of
        Infinity s' \<Rightarrow> Inl OverflowError
      | f \<Rightarrow> Inr f)"
| "round4 x = Inr x"

text \<open>The format specification \<open>:.4f\<close>.\<close>

fun format_4f :: "pyfloat \<Rightarrow> string" where
  "format_4f (Finite s m e) =
     (let k = scaled4 m e; frac = str_nat (k mod 10000)
      in (if s then ''-'' else []) @ str_nat (k div 10000) @ ''.'' @
         replicate (4 - length frac) (CHR ''0'') @ frac)"
| "format_4f (Infinity s) = (if s then ''-inf'' else ''inf'')"
| "format_4f NaN = ''nan''"

section \<open>Python's \<open>str.split\<close> and \<open>int(str)\<close>\<close>

fun split :: "char \<Rightarrow> string \<Rightarrow> string list" where
  "split sep [] = [[]]"
| "split sep (c # cs) =
     (if c = sep then [] # split sep cs
      else case split sep cs of
             p # ps \<Rightarrow> (c # p) # ps
           | [] \<Rightarrow> [[c]])"

text \<open>
  Characters are code points below 256. \<open>int\<close> skips the ASCII white space
  (tab, line feed, vertical tab, form feed, carriage return, space) and the two other
  white-space code points below 256 (U+0085, U+00A0); the only decimal digits below 256
  are \<open>0\<close> to \<open>9\<close>.
\<close>

definition is_space :: "char \<Rightarrow> bool" where
  "is_space c = (c \<in> set [CHR 0x09, CHR 0x0A, CHR 0x0B, CHR 0x0C, CHR 0x0D, CHR 0x20,
                            CHR 0x85, CHR 0xA0])"

definition is_digit :: "char \<Rightarrow> bool" where
  "is_digit c = (c \<in> set ''0123456789'')"

definition digit_value :: "char \<Rightarrow> int" where
  "digit_value c = int (of_char c) - 48"

text \<open>Underscores may only stand singly between two digits.\<close>

fun underscores_ok :: "string \<Rightarrow> bool" where
  "underscores_ok [] = True"
| "underscores_ok [c] = (c \<noteq> CHR ''_'')"
| "underscores_ok (c # d # cs) =
     (\<not> (c = CHR ''_'' \<and> d = CHR ''_'') \<and> underscores_ok (d # cs))"

text \<open>The interpreter's default limit on the digits of a decimal literal.\<close>

definition max_str_digits :: nat where
  "max_str_digits = 4300"

definition py_int :: "string \<Rightarrow> error + int" where
  "py_int s =
     (let s1 = dropWhile is_space s;
          neg = (s1 \<noteq> [] \<and> hd s1 = CHR ''-'');
          s2 = (if s1 \<noteq> [] \<and> (hd s1 = CHR ''+'' \<or> hd s1 = CHR ''-'') then tl s1 else s1);
          body = takeWhile (\<lambda>c. is_digit c \<or> c = CHR ''_'') s2;
          rest = dropWhile (\<lambda>c. is_digit c \<or> c = CHR ''_'') s2;
          digits = filter is_digit body;
          v = foldl (\<lambda>acc c. 10 * acc + digit_value c) 0 digits
      in if body = [] \<or> hd body = CHR ''_'' \<or> \<not> underscores_ok body
            \<or> max_str_digits < length digits \<or> dropWhile is_space rest \<noteq> []
         then Inl ValueError
         else Inr (if neg then - v else v))"

section \<open>The frame descriptor\<close>

text \<open>
  A side-data block is a dictionary whose values are strings or integers; the frame
  descriptor is a dictionary whose values are strings or a list of side-data blocks.
  A key may be absent, and a value may be of the other kind: the exception Python then
  raises is part of the model.
\<close>

datatype sd_value = SStr string | SInt int

type_synonym side_data = "string \<Rightarrow> sd_value option"

datatype fd_value = FStr string | FList "side_data list"

type_synonym frame_data = "string \<Rightarrow> fd_value option"

text \<open>\<open>d[key]\<close>\<close>

definition getitem :: "(string \<Rightarrow> 'v option) \<Rightarrow> string \<Rightarrow> error + 'v" where
  "getitem d key = (case d key of None \<Rightarrow> Inl (KeyError key) | Some v \<Rightarrow> Inr v)"

text \<open>What an f-string writes for a value of a side-data block.\<close>

fun format_value :: "sd_value \<Rightarrow> string" where
  "format_value (SStr s) = s"
| "format_value (SInt i) = str_int i"

section \<open>MDItem\<close>

record MDItem =
  raw_value :: string
  numerator :: int
  denominator :: int
  float_value :: pyfloat

text \<open>
  \<open>MDItem.__init__\<close>: \<open>val_list[0]\<close> always exists, \<open>val_list[1]\<close> raises \<open>IndexError\<close>
  when the string has no slash; parts after the second are never read.
\<close>

definition MDItem_init :: "string \<Rightarrow> error + MDItem" where
  "MDItem_init raw_val =
     (let val_list = split (CHR ''/'') raw_val
      in and_then (py_int (val_list ! 0)) (\<lambda>n.
         and_then (if length val_list < 2 then Inl IndexError else py_int (val_list ! 1)) (\<lambda>d.
         and_then (int_true_div n d) (\<lambda>f.
         Inr \<lparr>raw_value = raw_val, numerator = n, denominator = d, float_value = f\<rparr>))))"

text \<open>\<open>MDItem(v)\<close> for a value of a side-data block: an \<open>int\<close> has no \<open>split\<close>.\<close>

fun MDItem_new :: "sd_value \<Rightarrow> error + MDItem" where
  "MDItem_new (SStr s) = MDItem_init s"
| "MDItem_new (SInt i) = Inl AttributeError"

definition expand_to_ratio :: "MDItem \<Rightarrow> int \<Rightarrow> error + int" where
  "expand_to_ratio self denom =
     and_then (int_true_div denom (denominator self)) (\<lambda>ratio.
     and_then (int_to_float (numerator self)) (\<lambda>n.
     int_of_float (float_mul n ratio)))"

section \<open>MDItemColorXY\<close>

record MDItemColorXY =
  prefix_str :: string
  x_data :: MDItem
  y_data :: MDItem

definition MDItemColorXY_init :: "side_data \<Rightarrow> string \<Rightarrow> error + MDItemColorXY" where
  "MDItemColorXY_init sd pre =
     and_then (getitem sd (pre @ ''_x'')) (\<lambda>vx.
     and_then (MDItem_new vx) (\<lambda>x.
     and_then (getitem sd (pre @ ''_y'')) (\<lambda>vy.
     and_then (MDItem_new vy) (\<lambda>y.
     Inr \<lparr>prefix_str = pre, x_data = x, y_data = y\<rparr>))))"

definition MDItemColorXY_str :: "MDItemColorXY \<Rightarrow> string" where
  "MDItemColorXY_str self =
     prefix_str self @ ''_x: '' @ raw_value (x_data self) @ [CHR 0x0A] @
     prefix_str self @ ''_y: '' @ raw_value (y_data self)"

definition to_x265 :: "MDItemColorXY \<Rightarrow> error + string" where
  "to_x265 self =
     and_then (expand_to_ratio (x_data self) 50000) (\<lambda>x.
     and_then (expand_to_ratio (y_data self) 50000) (\<lambda>y.
     Inr (''('' @ str_int x @ '','' @ str_int y @ '')'')))"

definition to_libsvtav1 :: "MDItemColorXY \<Rightarrow> error + string" where
  "to_libsvtav1 self =
     and_then (round4 (float_value (x_data self))) (\<lambda>x.
     and_then (round4 (float_value (y_data self))) (\<lambda>y.
     Inr (''('' @ format_4f x @ '','' @ format_4f y @ '')'')))"

section \<open>MasteringDisplayData\<close>

record MasteringDisplayData =
  red :: MDItemColorXY
  green :: MDItemColorXY
  blue :: MDItemColorXY
  white_point :: MDItemColorXY
  min_luminance :: MDItem
  max_luminance :: MDItem

definition MasteringDisplayData_init :: "side_data \<Rightarrow> error + MasteringDisplayData" where
  "MasteringDisplayData_init sd =
     and_then (MDItemColorXY_init sd ''red'') (\<lambda>r.
     and_then (MDItemColorXY_init sd ''green'') (\<lambda>g.
     and_then (MDItemColorXY_init sd ''blue'') (\<lambda>b.
     and_then (MDItemColorXY_init sd ''white_point'') (\<lambda>wp.
     and_then (getitem sd ''min_luminance'') (\<lambda>vmin.
     and_then (MDItem_new vmin) (\<lambda>lmin.
     and_then (getitem sd ''max_luminance'') (\<lambda>vmax.
     and_then (MDItem_new vmax) (\<lambda>lmax.
     Inr \<lparr>red = r, green = g, blue = b, white_point = wp,
          min_luminance = lmin, max_luminance = lmax\<rparr>))))))))"

definition MasteringDisplayData_str :: "MasteringDisplayData \<Rightarrow> string" where
  "MasteringDisplayData_str self =
     MDItemColorXY_str (red self) @ [CHR 0x0A] @ MDItemColorXY_str (green self) @ [CHR 0x0A] @
     MDItemColorXY_str (blue self) @ [CHR 0x0A] @ MDItemColorXY_str (white_point self) @
     [CHR 0x0A] @ ''min_luminance: '' @ raw_value (min_luminance self) @ [CHR 0x0A] @
     ''max_luminance'' @ raw_value (max_luminance self)"

definition MasteringDisplayData_to_x265_params :: "MasteringDisplayData \<Rightarrow> error + string" where
  "MasteringDisplayData_to_x265_params self =
     and_then (to_x265 (green self)) (\<lambda>g.
     and_then (to_x265 (blue self)) (\<lambda>b.
     and_then (to_x265 (red self)) (\<lambda>r.
     and_then (to_x265 (white_point self)) (\<lambda>wp.
     and_then (expand_to_ratio (max_luminance self) 10000) (\<lambda>lmax.
     and_then (expand_to_ratio (min_luminance self) 10000) (\<lambda>lmin.
     Inr (''display=G'' @ g @ ''B'' @ b @ ''R'' @ r @ ''WP'' @ wp @
          ''L('' @ str_int lmax @ '','' @ str_int lmin @ '')'')))))))"

definition MasteringDisplayData_to_libsvtav1_params ::
  "MasteringDisplayData \<Rightarrow> error + string" where
  "MasteringDisplayData_to_libsvtav1_params self =
     and_then (to_libsvtav1 (green self)) (\<lambda>g.
     and_then (to_libsvtav1 (blue self)) (\<lambda>b.
     and_then (to_libsvtav1 (red self)) (\<lambda>r.
     and_then (to_libsvtav1 (white_point self)) (\<lambda>wp.
     and_then (round4 (float_value (max_luminance self))) (\<lambda>lmax.
     and_then (round4 (float_value (min_luminance self))) (\<lambda>lmin.
     Inr (''mastering-display=G'' @ g @ ''B'' @ b @ ''R'' @ r @ ''WP'' @ wp @
          ''L('' @ format_4f lmax @ '','' @ format_4f lmin @ '')'')))))))"

section \<open>ContentLightLevelData\<close>

record ContentLightLevelData =
  max_content :: sd_value
  max_average :: sd_value

definition ContentLightLevelData_init :: "side_data \<Rightarrow> error + ContentLightLevelData" where
  "ContentLightLevelData_init sd =
     and_then (getitem sd ''max_content'') (\<lambda>c.
     and_then (getitem sd ''max_average'') (\<lambda>a.
     Inr \<lparr>max_content = c, max_average = a\<rparr>))"

definition ContentLightLevelData_str :: "ContentLightLevelData \<Rightarrow> string" where
  "ContentLightLevelData_str self =
     ''max_content: '' @ format_value (max_content self) @
     '', max_average '' @ format_value (max_average self)"

definition ContentLightLevelData_to_x265_params :: "ContentLightLevelData \<Rightarrow> string" where
  "ContentLightLevelData_to_x265_params self =
     ''max-cll='' @ format_value (max_content self) @ '','' @ format_value (max_average self)"

definition ContentLightLevelData_to_libsvtav1_params :: "ContentLightLevelData \<Rightarrow> string" where
  "ContentLightLevelData_to_libsvtav1_params self =
     ''content-light='' @ format_value (max_content self) @ '','' @
     format_value (max_average self)"

section \<open>parse\_frame\_data\<close>

text \<open>
  \<open>ColorData.__init__\<close> reads the four keys. The values are used as strings from the
  next statement on (\<open>print(color_data)\<close> concatenates them to strings, which raises
  \<open>TypeError\<close> for any other value), so the record holds strings.
\<close>

fun as_str :: "fd_value \<Rightarrow> error + string" where
  "as_str (FStr s) = Inr s"
| "as_str (FList l) = Inl TypeError"

definition ColorData_init :: "frame_data \<Rightarrow> error + ColorData" where
  "ColorData_init fd =
     and_then (getitem fd ''pix_fmt'') (\<lambda>vp.
     and_then (getitem fd ''color_space'') (\<lambda>vs.
     and_then (getitem fd ''color_primaries'') (\<lambda>vc.
     and_then (getitem fd ''color_transfer'') (\<lambda>vt.
     and_then (as_str vp) (\<lambda>p.
     and_then (as_str vs) (\<lambda>s.
     and_then (as_str vc) (\<lambda>c.
     and_then (as_str vt) (\<lambda>t.
     Inr \<lparr>pix_fmt = p, color_space = s, color_primaries = c, color_transfer = t\<rparr>))))))))"

text \<open>
  The local variables of \<open>parse_frame_data\<close> once the Color Descriptor is built, and what
  has been printed so far (one entry for each call of \<open>print\<close>).
\<close>

record locals =
  color_data :: ColorData
  x265_params :: string
  libaom_av1_params :: string
  libsvtav1_params :: string
  stdout :: "string list"

text \<open>
  The function prints and returns nothing; the model returns what was printed, and at
  the end of the function the local variables. \<open>NotHDR\<close> is the early return.
\<close>

datatype outcome = NotHDR "string list" | Done locals

definition color_params :: "string list" where
  "color_params = [''pix_fmt'', ''color_space'', ''color_primaries'', ''color_transfer'']"

fun join :: "string \<Rightarrow> string list \<Rightarrow> string" where
  "join sep [] = []"
| "join sep [x] = x"
| "join sep (x # y # ys) = x @ sep @ join sep (y # ys)"

text \<open>
  What an f-string writes for a list of strings without quotes, backslashes or control
  characters (here: some of the four names of \<open>color_params\<close>).
\<close>

definition format_str_list :: "string list \<Rightarrow> string" where
  "format_str_list xs = ''['' @ join '', '' (map (\<lambda>x. [CHR 0x27] @ x @ [CHR 0x27]) xs) @ '']''"

text \<open>The body of the loop over the side-data list.\<close>

definition process_side_data :: "locals \<Rightarrow> side_data \<Rightarrow> error + locals" where
  "process_side_data l sd =
     and_then (getitem sd ''side_data_type'') (\<lambda>ty.
       if ty = SStr ''Mastering display metadata'' then
         and_then (MasteringDisplayData_init sd) (\<lambda>md.
         and_then (MasteringDisplayData_to_x265_params md) (\<lambda>a.
         and_then (MasteringDisplayData_to_libsvtav1_params md) (\<lambda>c.
         Inr (l\<lparr>x265_params := x265_params l @ '':'' @ a,
                libsvtav1_params := libsvtav1_params l @ '':'' @ c,
                stdout := stdout l @
                  [''Mastering display metadata:'', MasteringDisplayData_str md, '''']\<rparr>))))
       else if ty = SStr ''Content light level metadata'' then
         and_then (ContentLightLevelData_init sd) (\<lambda>cll.
         Inr (l\<lparr>x265_params := x265_params l @ '':'' @ ContentLightLevelData_to_x265_params cll,
                libsvtav1_params :=
                  libsvtav1_params l @ '':'' @ ContentLightLevelData_to_libsvtav1_params cll,
                stdout := stdout l @
                  [''Content light level metadata:'', ContentLightLevelData_str cll, '''']\<rparr>))
       else Inr l)"

fun scan_side_data :: "side_data list \<Rightarrow> locals \<Rightarrow> error + locals" where
  "scan_side_data [] l = Inr l"
| "scan_side_data (sd # sds) l = and_then (process_side_data l sd) (scan_side_data sds)"

text \<open>
  Iterating over the value of \<open>side_data_list\<close>: a list gives its blocks; a string gives
  its characters, and subscripting the first of them with a string raises \<open>TypeError\<close>.
\<close>

fun iterate :: "fd_value \<Rightarrow> error + side_data list" where
  "iterate (FList sds) = Inr sds"
| "iterate (FStr s) = (if s = [] then Inr [] else Inl TypeError)"

definition parse_frame_data :: "frame_data \<Rightarrow> error + outcome" where
  "parse_frame_data fd =
     (let missing_params = filter (\<lambda>x. fd x = None) color_params
      in if length missing_params \<noteq> 0 then
           Inr (NotHDR [''Missing '' @ format_str_list missing_params @
                          '' parameters in frame metadata!'',
                        ''Probably not an HDR stream!'',
                        ''Exit!''])
         else
           and_then (ColorData_init fd) (\<lambda>cd.
           and_then (getitem fd ''side_data_list'') (\<lambda>side_data_list.
           and_then (iterate side_data_list) (\<lambda>sds.
           and_then (scan_side_data sds
                       \<lparr>color_data = cd,
                        x265_params = ColorData_to_x265_params cd,
                        libaom_av1_params = to_libaom_av1_params cd,
                        libsvtav1_params = ColorData_to_libsvtav1_params cd,
                        stdout = [''Color Data:'', ColorData_str cd, '''']\<rparr>) (\<lambda>l.
           Inr (Done (l\<lparr>stdout := stdout l @
                  [[CHR 0x0A] @ ''FFmpeg options: '' @ to_ffmpeg_options (color_data l) @
                     [CHR 0x0A],
                   ''x265 params: '' @ x265_params l @ [CHR 0x0A],
                   ''libsvtav1 params: '' @ libsvtav1_params l @ [CHR 0x0A],
                   ''libaom-av1 params: '' @ libaom_av1_params l @ [CHR 0x0A],
                   ''Done!'']\<rparr>)))))))"

section \<open>Definitions used to state the properties\<close>

text \<open>
  What one side-data block contributes to the x265 and to the libsvtav1 parameter string:
  its fragment for each target behind a colon, nothing for a block of another type.
\<close>

definition fragments :: "side_data \<Rightarrow> error + string \<times> string" where
  "fragments sd =
     and_then (getitem sd ''side_data_type'') (\<lambda>ty.
       if ty = SStr ''Mastering display metadata'' then
         and_then (MasteringDisplayData_init sd) (\<lambda>md.
         and_then (MasteringDisplayData_to_x265_params md) (\<lambda>a.
         and_then (MasteringDisplayData_to_libsvtav1_params md) (\<lambda>c.
         Inr ('':'' @ a, '':'' @ c))))
       else if ty = SStr ''Content light level metadata'' then
         and_then (ContentLightLevelData_init sd) (\<lambda>cll.
         Inr ('':'' @ ContentLightLevelData_to_x265_params cll,
              '':'' @ ContentLightLevelData_to_libsvtav1_params cll))
       else Inr ([], []))"

text \<open>
  The value the specification gives for \<open>expand_to_ratio\<close>: the exact rational
  \<open>numerator * d / denominator\<close>, rounded to the nearest integer.
\<close>

definition exact_rounded_ratio :: "MDItem \<Rightarrow> int \<Rightarrow> int" where
  "exact_rounded_ratio self d =
     round (rat_of_int (numerator self * d) / rat_of_int (denominator self))"

text \<open>
  A frame descriptor as ffprobe prints it for the first frame of an HDR10 stream (the
  red primary in lowest terms, as in the comment above \<open>expand_to_ratio\<close>).
\<close>

definition mastering_block :: side_data where
  "mastering_block =
     [''side_data_type'' \<mapsto> SStr ''Mastering display metadata'',
      ''red_x'' \<mapsto> SStr ''17/25'', ''red_y'' \<mapsto> SStr ''8/25'',
      ''green_x'' \<mapsto> SStr ''13250/50000'', ''green_y'' \<mapsto> SStr ''34500/50000'',
      ''blue_x'' \<mapsto> SStr ''7500/50000'', ''blue_y'' \<mapsto> SStr ''3000/50000'',
      ''white_point_x'' \<mapsto> SStr ''15635/50000'', ''white_point_y'' \<mapsto> SStr ''16450/50000'',
      ''min_luminance'' \<mapsto> SStr ''1/10000'', ''max_luminance'' \<mapsto> SStr ''10000000/10000'']"

definition example_frame :: frame_data where
  "example_frame =
     [''pix_fmt'' \<mapsto> FStr ''yuv420p10le'',
      ''color_space'' \<mapsto> FStr ''bt2020nc'',
      ''color_primaries'' \<mapsto> FStr ''bt2020'',
      ''color_transfer'' \<mapsto> FStr ''smpte2084'',
      ''side_data_list'' \<mapsto> FList
        [mastering_block,
         [''side_data_type'' \<mapsto> SStr ''Content light level metadata'',
          ''max_content'' \<mapsto> SInt 1000, ''max_average'' \<mapsto> SInt 400]]]"

section \<open>Properties of the mapping tables and the Color Descriptor fragments\<close>

lemmas table_defs =
  x265_valid_color_matrix_def x265_color_matrix_mapping_def
  libaom_valid_matrix_coefficients_def libaom_matrix_coefficients_mapping_def
  libsvtav1_color_primaries_mapping_def libsvtav1_transfer_characteristics_mapping_def

lemmas str_int_eval = str_int_def str_nat.simps digit_char_def

text \<open>
  Claim C5. For the color-space tag \<open>bt2020_ncl\<close>, whatever the other three fields of the
  Color Descriptor are: the x265 fragment is \<open>colormatrix=bt2020nc\<close>, the libaom lookup
  yields \<open>bt2020ncl\<close> (and the libaom fragment ends with that matrix-coefficients
  sub-field), and the libsvtav1 fragment ends with \<open>:matrix-coefficients=9\<close>, because
  \<open>bt2020\<close> is a substring of the tag.
\<close>

theorem bt2020_ncl_mappings:
  "ColorData_to_x265_params (cd\<lparr>color_space := ''bt2020_ncl''\<rparr>) = ''colormatrix=bt2020nc''
   \<and> libaom_get_matrix_coefficients ''bt2020_ncl'' = Some ''bt2020ncl''
   \<and> to_libaom_av1_params (cd\<lparr>color_space := ''bt2020_ncl''\<rparr>) =
       ''color-primaries='' @ color_primaries cd @
       '':transfer-characteristics='' @ color_transfer cd @
       '':matrix-coefficients=bt2020ncl''
   \<and> sublist ''bt2020'' ''bt2020_ncl''
   \<and> ColorData_to_libsvtav1_params (cd\<lparr>color_space := ''bt2020_ncl''\<rparr>) =
       ''color-primaries='' @ str_int (libsvtav1_get_cp_code (color_primaries cd)) @
       '':transfer-characteristics='' @ str_int (libsvtav1_get_tch_code (color_transfer cd)) @
       '':matrix-coefficients=9''"
  by (simp add: ColorData_to_x265_params_def to_libaom_av1_params_def
      ColorData_to_libsvtav1_params_def libaom_get_matrix_coefficients_def
      x265_valid_color_matrix_def x265_color_matrix_mapping_def
      libaom_valid_matrix_coefficients_def libaom_matrix_coefficients_mapping_def Let_def)

theorem bt2020_ncl_mappings_witness:
  "ColorData_to_x265_params
     \<lparr>pix_fmt = ''yuv420p10le'', color_space = ''bt2020_ncl'',
      color_primaries = ''bt2020'', color_transfer = ''smpte2084''\<rparr> = ''colormatrix=bt2020nc''
   \<and> to_libaom_av1_params
     \<lparr>pix_fmt = ''yuv420p10le'', color_space = ''bt2020_ncl'',
      color_primaries = ''bt2020'', color_transfer = ''smpte2084''\<rparr> =
     ''color-primaries=bt2020:transfer-characteristics=smpte2084:matrix-coefficients=bt2020ncl''
   \<and> ColorData_to_libsvtav1_params
     \<lparr>pix_fmt = ''yuv420p10le'', color_space = ''bt2020_ncl'',
      color_primaries = ''bt2020'', color_transfer = ''smpte2084''\<rparr> =
     ''color-primaries=9:transfer-characteristics=16:matrix-coefficients=9''"
  using bt2020_ncl_mappings
    [of "\<lparr>pix_fmt = ''yuv420p10le'', color_space = ''unknown'',
          color_primaries = ''bt2020'', color_transfer = ''smpte2084''\<rparr>"]
  by (simp add: libsvtav1_get_cp_code_def libsvtav1_get_tch_code_def
      libsvtav1_color_primaries_mapping_def libsvtav1_transfer_characteristics_mapping_def
      str_int_eval)

text \<open>
  Claim C6. For a Color Descriptor with color space \<open>unknown\<close>, primaries \<open>bt709\<close> and
  transfer \<open>smpte2084\<close> (any pixel format), the x265 fragment is exactly
  \<open>colormatrix=unknown\<close> and the libsvtav1 fragment is exactly
  \<open>color-primaries=1:transfer-characteristics=16\<close>, with no matrix-coefficients sub-field.
\<close>

theorem unknown_bt709_smpte2084_fragments:
  "ColorData_to_x265_params
     \<lparr>pix_fmt = p, color_space = ''unknown'', color_primaries = ''bt709'',
      color_transfer = ''smpte2084''\<rparr> = ''colormatrix=unknown''
   \<and> ColorData_to_libsvtav1_params
     \<lparr>pix_fmt = p, color_space = ''unknown'', color_primaries = ''bt709'',
      color_transfer = ''smpte2084''\<rparr> = ''color-primaries=1:transfer-characteristics=16''"
  by (simp add: ColorData_to_x265_params_def x265_valid_color_matrix_def
      ColorData_to_libsvtav1_params_def Let_def libsvtav1_get_cp_code_def
      libsvtav1_get_tch_code_def libsvtav1_color_primaries_mapping_def
      libsvtav1_transfer_characteristics_mapping_def str_int_eval sublist_code)

theorem unknown_bt709_smpte2084_fragments_witness:
  "ColorData_to_x265_params
     \<lparr>pix_fmt = ''yuv420p10le'', color_space = ''unknown'', color_primaries = ''bt709'',
      color_transfer = ''smpte2084''\<rparr> = ''colormatrix=unknown''
   \<and> ColorData_to_libsvtav1_params
     \<lparr>pix_fmt = ''yuv420p10le'', color_space = ''unknown'', color_primaries = ''bt709'',
      color_transfer = ''smpte2084''\<rparr> = ''color-primaries=1:transfer-characteristics=16''"
  using unknown_bt709_smpte2084_fragments [of "''yuv420p10le''"] by simp

text \<open>
  Claim C7. For every color-space tag the x265 and libaom fragments are total functions of
  the Color Descriptor (no error can be raised) that resolve the matrix coefficients in
  this order: a tag in the target's valid list is passed through unchanged; otherwise a
  tag in the target's alias table is replaced by its alias; otherwise the sub-field is
  omitted, so that the x265 fragment is the empty string and the libaom fragment is just
  the color-primaries and transfer-characteristics sub-fields.
\<close>

theorem matrix_coefficients_resolution:
  "ColorData_to_x265_params cd =
     (if color_space cd \<in> set x265_valid_color_matrix then ''colormatrix='' @ color_space cd
      else case map_of x265_color_matrix_mapping (color_space cd) of
             Some alias \<Rightarrow> ''colormatrix='' @ alias
           | None \<Rightarrow> [])
   \<and> to_libaom_av1_params cd =
     ''color-primaries='' @ color_primaries cd @
     '':transfer-characteristics='' @ color_transfer cd @
     (if color_space cd \<in> set libaom_valid_matrix_coefficients
        then '':matrix-coefficients='' @ color_space cd
      else case map_of libaom_matrix_coefficients_mapping (color_space cd) of
             Some alias \<Rightarrow> '':matrix-coefficients='' @ alias
           | None \<Rightarrow> [])"
  by (auto simp: ColorData_to_x265_params_def to_libaom_av1_params_def
      libaom_get_matrix_coefficients_def Let_def split: option.splits)

theorem matrix_coefficients_resolution_witness:
  "ColorData_to_x265_params
     \<lparr>pix_fmt = ''p'', color_space = ''smpte240m'', color_primaries = ''bt709'',
      color_transfer = ''bt709''\<rparr> = ''colormatrix=smpte240m''
   \<and> to_libaom_av1_params
     \<lparr>pix_fmt = ''p'', color_space = ''smpte240m'', color_primaries = ''bt709'',
      color_transfer = ''bt709''\<rparr> =
     ''color-primaries=bt709:transfer-characteristics=bt709:matrix-coefficients=smpte240''
   \<and> ColorData_to_x265_params
     \<lparr>pix_fmt = ''p'', color_space = ''bt2020_cl'', color_primaries = ''bt709'',
      color_transfer = ''bt709''\<rparr> = ''colormatrix=bt2020c''
   \<and> ColorData_to_x265_params
     \<lparr>pix_fmt = ''p'', color_space = ''bt601'', color_primaries = ''bt709'',
      color_transfer = ''bt709''\<rparr> = []
   \<and> to_libaom_av1_params
     \<lparr>pix_fmt = ''p'', color_space = ''bt601'', color_primaries = ''bt709'',
      color_transfer = ''bt709''\<rparr> =
     ''color-primaries=bt709:transfer-characteristics=bt709:matrix-coefficients=bt601''
   \<and> to_libaom_av1_params
     \<lparr>pix_fmt = ''p'', color_space = ''gbr'', color_primaries = ''bt709'',
      color_transfer = ''bt709''\<rparr> =
     ''color-primaries=bt709:transfer-characteristics=bt709''"
  using
    matrix_coefficients_resolution
      [of "\<lparr>pix_fmt = ''p'', color_space = ''smpte240m'', color_primaries = ''bt709'',
             color_transfer = ''bt709''\<rparr>"]
    matrix_coefficients_resolution
      [of "\<lparr>pix_fmt = ''p'', color_space = ''bt2020_cl'', color_primaries = ''bt709'',
             color_transfer = ''bt709''\<rparr>"]
    matrix_coefficients_resolution
      [of "\<lparr>pix_fmt = ''p'', color_space = ''bt601'', color_primaries = ''bt709'',
             color_transfer = ''bt709''\<rparr>"]
    matrix_coefficients_resolution
      [of "\<lparr>pix_fmt = ''p'', color_space = ''gbr'', color_primaries = ''bt709'',
             color_transfer = ''bt709''\<rparr>"]
  by (simp add: table_defs)

section \<open>Properties of the orchestrator\<close>

lemma and_then_simps [simp]:
  "and_then (Inl e) f = Inl e"
  "and_then (Inr x) f = f x"
  by (simp_all add: and_then_def)

lemma and_then_Inr_iff: "and_then m f = Inr y \<longleftrightarrow> (\<exists>x. m = Inr x \<and> f x = Inr y)"
  by (cases m) simp_all

lemma missing_params_nonempty:
  "(\<exists>k \<in> set color_params. fd k = None) \<longleftrightarrow> filter (\<lambda>x. fd x = None) color_params \<noteq> []"
  by (simp add: filter_empty_conv)

text \<open>
  Claim C3. When at least one of the four fields \<open>pix_fmt\<close>, \<open>color_space\<close>,
  \<open>color_primaries\<close>, \<open>color_transfer\<close> is missing from the frame descriptor, the
  orchestrator returns early: it prints the list of the missing fields (which is not
  empty) and the two lines that follow, it does not reach the end of the function where
  the parameter strings exist, and the result does not depend on the entry
  \<open>side_data_list\<close>, which is never read.
\<close>

theorem missing_color_field_not_hdr:
  assumes "\<exists>k \<in> set color_params. fd k = None"
  shows "parse_frame_data fd =
           Inr (NotHDR [''Missing '' @ format_str_list (filter (\<lambda>x. fd x = None) color_params) @
                          '' parameters in frame metadata!'',
                        ''Probably not an HDR stream!'', ''Exit!''])
         \<and> filter (\<lambda>x. fd x = None) color_params \<noteq> []
         \<and> (\<forall>l. parse_frame_data fd \<noteq> Inr (Done l))
         \<and> (\<forall>v. parse_frame_data (fd(''side_data_list'' := v)) = parse_frame_data fd)"
proof -
  from assms have ne: "filter (\<lambda>x. fd x = None) color_params \<noteq> []"
    by (simp add: missing_params_nonempty)
  then have p: "parse_frame_data fd =
           Inr (NotHDR [''Missing '' @ format_str_list (filter (\<lambda>x. fd x = None) color_params) @
                          '' parameters in frame metadata!'',
                        ''Probably not an HDR stream!'', ''Exit!''])"
    by (simp add: parse_frame_data_def)
  have same: "filter (\<lambda>x. (fd(''side_data_list'' := v)) x = None) color_params
              = filter (\<lambda>x. fd x = None) color_params" for v
    by (simp add: color_params_def)
  have "parse_frame_data (fd(''side_data_list'' := v)) = parse_frame_data fd" for v
    using ne by (simp add: parse_frame_data_def same del: fun_upd_apply)
  with ne p show ?thesis by simp
qed

theorem missing_color_field_not_hdr_witness:
  "parse_frame_data
     [''pix_fmt'' \<mapsto> FStr ''yuv420p'', ''color_space'' \<mapsto> FStr ''bt709'',
      ''color_primaries'' \<mapsto> FStr ''bt709'', ''side_data_list'' \<mapsto> FList []] =
   Inr (NotHDR [''Missing ['' @ [CHR 0x27] @ ''color_transfer'' @ [CHR 0x27] @
                  ''] parameters in frame metadata!'',
                ''Probably not an HDR stream!'', ''Exit!''])"
  using missing_color_field_not_hdr
    [of "[''pix_fmt'' \<mapsto> FStr ''yuv420p'', ''color_space'' \<mapsto> FStr ''bt709'',
          ''color_primaries'' \<mapsto> FStr ''bt709'', ''side_data_list'' \<mapsto> FList []]"]
  by (simp add: color_params_def format_str_list_def)

lemma ColorData_init_cases:
  assumes "\<forall>k \<in> set color_params. fd k \<noteq> None"
  shows "ColorData_init fd =
           (if \<forall>k \<in> set color_params. \<exists>s. fd k = Some (FStr s)
            then Inr \<lparr>pix_fmt = (case fd ''pix_fmt'' of Some (FStr s) \<Rightarrow> s),
                      color_space = (case fd ''color_space'' of Some (FStr s) \<Rightarrow> s),
                      color_primaries = (case fd ''color_primaries'' of Some (FStr s) \<Rightarrow> s),
                      color_transfer = (case fd ''color_transfer'' of Some (FStr s) \<Rightarrow> s)\<rparr>
            else Inl TypeError)"
proof -
  from assms obtain vp vs vc vt where v: "fd ''pix_fmt'' = Some vp" "fd ''color_space'' = Some vs"
    "fd ''color_primaries'' = Some vc" "fd ''color_transfer'' = Some vt"
    by (auto simp: color_params_def)
  show ?thesis
    by (cases vp; cases vs; cases vc; cases vt)
      (simp_all add: ColorData_init_def getitem_def color_params_def v)
qed

text \<open>
  Claim C9. A frame descriptor that has all four color fields but no \<open>side_data_list\<close>
  passes the validation (which looks at the four color fields only), so the outcome is
  not the not-HDR one: the function raises. When the four fields hold strings, as in
  every frame descriptor ffprobe prints, the exception is the \<open>KeyError\<close> of the
  unguarded lookup of \<open>side_data_list\<close>; when one of them holds a list instead, printing
  the Color Descriptor has already raised \<open>TypeError\<close>.
\<close>

theorem missing_side_data_list_raises:
  assumes "\<forall>k \<in> set color_params. fd k \<noteq> None" and "fd ''side_data_list'' = None"
  shows "parse_frame_data fd =
           Inl (if \<forall>k \<in> set color_params. \<exists>s. fd k = Some (FStr s)
                then KeyError ''side_data_list'' else TypeError)"
proof -
  from assms(1) have "filter (\<lambda>x. fd x = None) color_params = []"
    by (simp add: filter_empty_conv)
  then show ?thesis
    using assms(2)
    by (simp add: parse_frame_data_def ColorData_init_cases [OF assms(1)] getitem_def)
qed

theorem missing_side_data_list_raises_witness:
  "parse_frame_data
     [''pix_fmt'' \<mapsto> FStr ''yuv420p10le'', ''color_space'' \<mapsto> FStr ''bt2020nc'',
      ''color_primaries'' \<mapsto> FStr ''bt2020'', ''color_transfer'' \<mapsto> FStr ''smpte2084''] =
   Inl (KeyError ''side_data_list'')"
  using missing_side_data_list_raises
    [of "[''pix_fmt'' \<mapsto> FStr ''yuv420p10le'', ''color_space'' \<mapsto> FStr ''bt2020nc'',
          ''color_primaries'' \<mapsto> FStr ''bt2020'', ''color_transfer'' \<mapsto> FStr ''smpte2084'']"]
  by (simp add: color_params_def)

subsection \<open>The loop over the side-data list\<close>

lemma process_side_data_frame:
  assumes "process_side_data l sd = Inr l'"
  shows "\<exists>a c. fragments sd = Inr (a, c) \<and> x265_params l' = x265_params l @ a
          \<and> libsvtav1_params l' = libsvtav1_params l @ c
          \<and> libaom_av1_params l' = libaom_av1_params l \<and> color_data l' = color_data l"
proof -
  from assms obtain ty where ty: "getitem sd ''side_data_type'' = Inr ty"
    by (auto simp: process_side_data_def and_then_Inr_iff)
  consider (md) "ty = SStr ''Mastering display metadata''"
    | (cll) "ty = SStr ''Content light level metadata''"
    | (other) "ty \<noteq> SStr ''Mastering display metadata''"
        "ty \<noteq> SStr ''Content light level metadata''"
    by blast
  then show ?thesis
  proof cases
    case md
    with assms ty show ?thesis
      by (auto simp: process_side_data_def fragments_def and_then_Inr_iff)
  next
    case cll
    with assms ty show ?thesis
      by (auto simp: process_side_data_def fragments_def and_then_Inr_iff)
  next
    case other
    with assms ty show ?thesis
      by (auto simp: process_side_data_def fragments_def)
  qed
qed

lemma fragments_process_side_data:
  assumes "fragments sd = Inr (a, c)"
  shows "\<exists>l'. process_side_data l sd = Inr l'"
proof -
  from assms obtain ty where ty: "getitem sd ''side_data_type'' = Inr ty"
    by (auto simp: fragments_def and_then_Inr_iff)
  consider (md) "ty = SStr ''Mastering display metadata''"
    | (cll) "ty = SStr ''Content light level metadata''"
    | (other) "ty \<noteq> SStr ''Mastering display metadata''"
        "ty \<noteq> SStr ''Content light level metadata''"
    by blast
  then show ?thesis
  proof cases
    case md
    with assms ty show ?thesis
      by (auto simp: process_side_data_def fragments_def and_then_Inr_iff)
  next
    case cll
    with assms ty show ?thesis
      by (auto simp: process_side_data_def fragments_def and_then_Inr_iff)
  next
    case other
    with assms ty show ?thesis
      by (auto simp: process_side_data_def fragments_def)
  qed
qed

lemma scan_side_data_frame:
  "scan_side_data sds l = Inr l' \<Longrightarrow>
     \<exists>fs. map fragments sds = map Inr fs \<and>
       x265_params l' = x265_params l @ concat (map fst fs) \<and>
       libsvtav1_params l' = libsvtav1_params l @ concat (map snd fs) \<and>
       libaom_av1_params l' = libaom_av1_params l \<and> color_data l' = color_data l"
proof (induction sds arbitrary: l)
  case Nil
  then show ?case by simp
next
  case (Cons sd sds)
  from Cons.prems obtain l1 where p: "process_side_data l sd = Inr l1"
    and s: "scan_side_data sds l1 = Inr l'"
    by (auto simp: and_then_Inr_iff)
  from process_side_data_frame [OF p] obtain a c where f: "fragments sd = Inr (a, c)"
    and l1: "x265_params l1 = x265_params l @ a" "libsvtav1_params l1 = libsvtav1_params l @ c"
      "libaom_av1_params l1 = libaom_av1_params l" "color_data l1 = color_data l"
    by blast
  from Cons.IH [OF s] obtain fs where fs: "map fragments sds = map Inr fs"
    "x265_params l' = x265_params l1 @ concat (map fst fs)"
    "libsvtav1_params l' = libsvtav1_params l1 @ concat (map snd fs)"
    "libaom_av1_params l' = libaom_av1_params l1" "color_data l' = color_data l1"
    by blast
  show ?case
    by (rule exI [of _ "(a, c) # fs"]) (simp add: f l1 fs)
qed

lemma scan_side_data_total:
  "map fragments sds = map Inr fs \<Longrightarrow> \<exists>l'. scan_side_data sds l = Inr l'"
proof (induction sds arbitrary: l fs)
  case Nil
  then show ?case by simp
next
  case (Cons sd sds)
  then obtain f fs' where fs: "fs = f # fs'" "fragments sd = Inr f"
    "map fragments sds = map Inr fs'"
    by (cases fs) auto
  obtain a c where "f = (a, c)" by (cases f)
  with fs fragments_process_side_data obtain l1 where "process_side_data l sd = Inr l1"
    by blast
  with Cons.IH [OF fs(3), of l1] show ?case by auto
qed

lemma ColorData_init_present:
  "ColorData_init fd = Inr cd \<Longrightarrow> filter (\<lambda>x. fd x = None) color_params = []"
  by (auto simp: ColorData_init_def color_params_def getitem_def and_then_Inr_iff
      split: option.splits)

lemma parse_frame_data_Done:
  assumes "parse_frame_data fd = Inr (Done l)"
  shows "\<exists>cd v sds l0. ColorData_init fd = Inr cd \<and> fd ''side_data_list'' = Some v
          \<and> iterate v = Inr sds
          \<and> scan_side_data sds
               \<lparr>color_data = cd,
                x265_params = ColorData_to_x265_params cd,
                libaom_av1_params = to_libaom_av1_params cd,
                libsvtav1_params = ColorData_to_libsvtav1_params cd,
                stdout = [''Color Data:'', ColorData_str cd, '''']\<rparr> = Inr l0
          \<and> l = l0\<lparr>stdout := stdout l0 @
                  [[CHR 0x0A] @ ''FFmpeg options: '' @ to_ffmpeg_options (color_data l0) @
                     [CHR 0x0A],
                   ''x265 params: '' @ x265_params l0 @ [CHR 0x0A],
                   ''libsvtav1 params: '' @ libsvtav1_params l0 @ [CHR 0x0A],
                   ''libaom-av1 params: '' @ libaom_av1_params l0 @ [CHR 0x0A],
                   ''Done!'']\<rparr>"
  using assms
  by (auto simp: parse_frame_data_def and_then_Inr_iff getitem_def Let_def
      split: if_splits option.splits)

lemma ColorData_init_ignores_side_data_list:
  "ColorData_init (fd(''side_data_list'' := v)) = ColorData_init fd"
  by (simp add: ColorData_init_def getitem_def)

text \<open>
  Claim C8. Let the frame descriptor have its four color fields and a list of side-data
  blocks. Each block contributes its own fragments (a mastering-display or content-light
  block its renderings behind a colon, a block with another tag nothing). If the
  function reaches its end, the x265 and the libsvtav1 parameter strings are the Color
  Descriptor's fragments followed by the contributions of all blocks in the order of the
  list, so that blocks with the same tag accumulate and none replaces another; and the
  function does reach its end whenever the fragments of every block can be computed.
\<close>

theorem side_data_fragments_accumulate:
  assumes "ColorData_init fd = Inr cd" and "fd ''side_data_list'' = Some (FList sds)"
  shows "(\<forall>l. parse_frame_data fd = Inr (Done l) \<longrightarrow>
           (\<exists>fs. map fragments sds = map Inr fs \<and>
              x265_params l = ColorData_to_x265_params cd @ concat (map fst fs) \<and>
              libsvtav1_params l = ColorData_to_libsvtav1_params cd @ concat (map snd fs)))
       \<and> (\<forall>fs. map fragments sds = map Inr fs \<longrightarrow> (\<exists>l. parse_frame_data fd = Inr (Done l)))"
proof (intro conjI allI impI)
  fix l assume "parse_frame_data fd = Inr (Done l)"
  with assms ColorData_init_present [OF assms(1)]
  obtain l0 where "scan_side_data sds
                       \<lparr>color_data = cd,
                        x265_params = ColorData_to_x265_params cd,
                        libaom_av1_params = to_libaom_av1_params cd,
                        libsvtav1_params = ColorData_to_libsvtav1_params cd,
                        stdout = [''Color Data:'', ColorData_str cd, '''']\<rparr> = Inr l0"
     and "x265_params l = x265_params l0" "libsvtav1_params l = libsvtav1_params l0"
    by (auto simp: parse_frame_data_def getitem_def and_then_Inr_iff)
  with scan_side_data_frame [OF this(1)]
  show "\<exists>fs. map fragments sds = map Inr fs \<and>
              x265_params l = ColorData_to_x265_params cd @ concat (map fst fs) \<and>
              libsvtav1_params l = ColorData_to_libsvtav1_params cd @ concat (map snd fs)"
    by auto
next
  fix fs assume "map fragments sds = map Inr fs"
  from scan_side_data_total [OF this] ColorData_init_present [OF assms(1)] assms
  show "\<exists>l. parse_frame_data fd = Inr (Done l)"
    by (simp add: parse_frame_data_def getitem_def and_then_Inr_iff)
qed

theorem side_data_fragments_accumulate_witness:
  "\<exists>l. parse_frame_data
          [''pix_fmt'' \<mapsto> FStr ''yuv420p10le'', ''color_space'' \<mapsto> FStr ''bt2020nc'',
           ''color_primaries'' \<mapsto> FStr ''bt2020'', ''color_transfer'' \<mapsto> FStr ''smpte2084'',
           ''side_data_list'' \<mapsto> FList
             [[''side_data_type'' \<mapsto> SStr ''Content light level metadata'',
               ''max_content'' \<mapsto> SInt 1000, ''max_average'' \<mapsto> SInt 400],
              [''side_data_type'' \<mapsto> SStr ''H.26[45] User Data Unregistered SEI message''],
              [''side_data_type'' \<mapsto> SStr ''Content light level metadata'',
               ''max_content'' \<mapsto> SInt 800, ''max_average'' \<mapsto> SInt 300]]] = Inr (Done l)
      \<and> x265_params l = ''colormatrix=bt2020nc:max-cll=1000,400:max-cll=800,300''
      \<and> libsvtav1_params l =
          ''color-primaries=9:transfer-characteristics=16:matrix-coefficients=9:content-light=1000,400:content-light=800,300''"
proof -
  let ?sds = "[[''side_data_type'' \<mapsto> SStr ''Content light level metadata'',
               ''max_content'' \<mapsto> SInt 1000, ''max_average'' \<mapsto> SInt 400],
              [''side_data_type'' \<mapsto> SStr ''H.26[45] User Data Unregistered SEI message''],
              [''side_data_type'' \<mapsto> SStr ''Content light level metadata'',
               ''max_content'' \<mapsto> SInt 800, ''max_average'' \<mapsto> SInt 300]] :: side_data list"
  let ?fd = "[''pix_fmt'' \<mapsto> FStr ''yuv420p10le'', ''color_space'' \<mapsto> FStr ''bt2020nc'',
           ''color_primaries'' \<mapsto> FStr ''bt2020'', ''color_transfer'' \<mapsto> FStr ''smpte2084'',
           ''side_data_list'' \<mapsto> FList ?sds]"
  let ?cd = "\<lparr>pix_fmt = ''yuv420p10le'', color_space = ''bt2020nc'',
              color_primaries = ''bt2020'', color_transfer = ''smpte2084''\<rparr>"
  have cd: "ColorData_init ?fd = Inr ?cd"
    by (simp add: ColorData_init_def getitem_def)
  have sdl: "?fd ''side_data_list'' = Some (FList ?sds)"
    by simp
  have fr: "map fragments ?sds =
              map Inr [('':max-cll=1000,400'', '':content-light=1000,400''), ([], []),
                       ('':max-cll=800,300'', '':content-light=800,300'')]"
    by (simp add: fragments_def getitem_def ContentLightLevelData_init_def
        ContentLightLevelData_to_x265_params_def ContentLightLevelData_to_libsvtav1_params_def
        str_int_eval)
  have x: "ColorData_to_x265_params ?cd = ''colormatrix=bt2020nc''"
    by (simp add: ColorData_to_x265_params_def x265_valid_color_matrix_def)
  have c: "ColorData_to_libsvtav1_params ?cd =
             ''color-primaries=9:transfer-characteristics=16:matrix-coefficients=9''"
    by (simp add: ColorData_to_libsvtav1_params_def libsvtav1_get_cp_code_def
        libsvtav1_get_tch_code_def libsvtav1_color_primaries_mapping_def
        libsvtav1_transfer_characteristics_mapping_def str_int_eval)
  note main = side_data_fragments_accumulate [OF cd sdl]
  from main fr obtain l where l: "parse_frame_data ?fd = Inr (Done l)"
    by blast
  with main obtain fs where fs: "map fragments ?sds = map Inr fs"
    "x265_params l = ColorData_to_x265_params ?cd @ concat (map fst fs)"
    "libsvtav1_params l = ColorData_to_libsvtav1_params ?cd @ concat (map snd fs)"
    by blast
  from fs(1) fr have "fs = [('':max-cll=1000,400'', '':content-light=1000,400''), ([], []),
                       ('':max-cll=800,300'', '':content-light=800,300'')]"
    by (auto simp: map_eq_Cons_conv)
  with fs l x c show ?thesis
    by (intro exI [of _ l]) simp
qed

text \<open>
  Claim C10. Whenever the function reaches its end, the libaom parameter string is exactly
  the libaom fragment of the Color Descriptor and the playback flags printed are those of
  the Color Descriptor: the last five things printed are built from the Color Descriptor
  and the three parameter strings. The side-data list has no influence on either: with
  any other value of \<open>side_data_list\<close> for which the function reaches its end, the
  libaom string and the Color Descriptor are the same.
\<close>

theorem libaom_params_independent_of_side_data:
  assumes "parse_frame_data fd = Inr (Done l)"
  shows "\<exists>cd. ColorData_init fd = Inr cd \<and> color_data l = cd
           \<and> libaom_av1_params l = to_libaom_av1_params cd
           \<and> (\<exists>out. stdout l = out @
                  [[CHR 0x0A] @ ''FFmpeg options: '' @ to_ffmpeg_options cd @ [CHR 0x0A],
                   ''x265 params: '' @ x265_params l @ [CHR 0x0A],
                   ''libsvtav1 params: '' @ libsvtav1_params l @ [CHR 0x0A],
                   ''libaom-av1 params: '' @ to_libaom_av1_params cd @ [CHR 0x0A],
                   ''Done!''])
           \<and> (\<forall>v l'. parse_frame_data (fd(''side_data_list'' := v)) = Inr (Done l') \<longrightarrow>
                  libaom_av1_params l' = libaom_av1_params l \<and> color_data l' = color_data l)"
proof -
  from parse_frame_data_Done [OF assms] obtain cd v sds l0 where
    cd: "ColorData_init fd = Inr cd" and
    scan: "scan_side_data sds
               \<lparr>color_data = cd,
                x265_params = ColorData_to_x265_params cd,
                libaom_av1_params = to_libaom_av1_params cd,
                libsvtav1_params = ColorData_to_libsvtav1_params cd,
                stdout = [''Color Data:'', ColorData_str cd, '''']\<rparr> = Inr l0" and
    l: "l = l0\<lparr>stdout := stdout l0 @
                  [[CHR 0x0A] @ ''FFmpeg options: '' @ to_ffmpeg_options (color_data l0) @
                     [CHR 0x0A],
                   ''x265 params: '' @ x265_params l0 @ [CHR 0x0A],
                   ''libsvtav1 params: '' @ libsvtav1_params l0 @ [CHR 0x0A],
                   ''libaom-av1 params: '' @ libaom_av1_params l0 @ [CHR 0x0A],
                   ''Done!'']\<rparr>"
    by blast
  from scan_side_data_frame [OF scan] have
    fr: "libaom_av1_params l0 = to_libaom_av1_params cd" "color_data l0 = cd"
    by auto
  have indep: "libaom_av1_params l' = libaom_av1_params l \<and> color_data l' = color_data l"
    if "parse_frame_data (fd(''side_data_list'' := v')) = Inr (Done l')" for v' l'
  proof -
    from parse_frame_data_Done [OF that] obtain sds' l0' where
      scan': "scan_side_data sds'
               \<lparr>color_data = cd,
                x265_params = ColorData_to_x265_params cd,
                libaom_av1_params = to_libaom_av1_params cd,
                libsvtav1_params = ColorData_to_libsvtav1_params cd,
                stdout = [''Color Data:'', ColorData_str cd, '''']\<rparr> = Inr l0'" and
      l': "l' = l0'\<lparr>stdout := stdout l0' @
                  [[CHR 0x0A] @ ''FFmpeg options: '' @ to_ffmpeg_options (color_data l0') @
                     [CHR 0x0A],
                   ''x265 params: '' @ x265_params l0' @ [CHR 0x0A],
                   ''libsvtav1 params: '' @ libsvtav1_params l0' @ [CHR 0x0A],
                   ''libaom-av1 params: '' @ libaom_av1_params l0' @ [CHR 0x0A],
                   ''Done!'']\<rparr>"
      unfolding ColorData_init_ignores_side_data_list cd by auto
    from scan_side_data_frame [OF scan'] show ?thesis
      by (auto simp: l l' fr)
  qed
  show ?thesis
    using cd fr indep by (intro exI [of _ cd]) (simp add: l)
qed

section \<open>Properties of the Mastering Display Record\<close>

lemmas float_eval =
  int_true_div_def int_to_float_def make_float_def round_to_double_def float_exponent_def
  round_half_even_def bit_length.simps scaled4_def Let_def

lemmas py_int_eval = py_int_def is_space_def is_digit_def digit_value_def max_str_digits_def

lemma replicate_numeral: "replicate (numeral k) x = x # replicate (pred_numeral k) x"
  by (simp add: numeral_eq_Suc)

lemma to_x265_Inr_iff:
  "to_x265 p = Inr s \<longleftrightarrow>
     (\<exists>x y. expand_to_ratio (x_data p) 50000 = Inr x \<and> expand_to_ratio (y_data p) 50000 = Inr y
        \<and> s = ''('' @ str_int x @ '','' @ str_int y @ '')'')"
  by (auto simp: to_x265_def and_then_Inr_iff)

lemma MasteringDisplayData_to_x265_params_Inr_iff:
  "MasteringDisplayData_to_x265_params md = Inr s \<longleftrightarrow>
     (\<exists>gx gy bx by rx ry wx wy lmax lmin.
        expand_to_ratio (x_data (green md)) 50000 = Inr gx \<and>
        expand_to_ratio (y_data (green md)) 50000 = Inr gy \<and>
        expand_to_ratio (x_data (blue md)) 50000 = Inr bx \<and>
        expand_to_ratio (y_data (blue md)) 50000 = Inr by \<and>
        expand_to_ratio (x_data (red md)) 50000 = Inr rx \<and>
        expand_to_ratio (y_data (red md)) 50000 = Inr ry \<and>
        expand_to_ratio (x_data (white_point md)) 50000 = Inr wx \<and>
        expand_to_ratio (y_data (white_point md)) 50000 = Inr wy \<and>
        expand_to_ratio (max_luminance md) 10000 = Inr lmax \<and>
        expand_to_ratio (min_luminance md) 10000 = Inr lmin \<and>
        s = ''display=G('' @ str_int gx @ '','' @ str_int gy @
            '')B('' @ str_int bx @ '','' @ str_int by @
            '')R('' @ str_int rx @ '','' @ str_int ry @
            '')WP('' @ str_int wx @ '','' @ str_int wy @
            '')L('' @ str_int lmax @ '','' @ str_int lmin @ '')'')"
  unfolding MasteringDisplayData_to_x265_params_def and_then_Inr_iff to_x265_Inr_iff
  by (simp add: ex_simps [symmetric] del: ex_simps) blast

lemma mastering_block_values:
  "\<exists>md. MasteringDisplayData_init mastering_block = Inr md \<and>
        expand_to_ratio (x_data (green md)) 50000 = Inr 13250 \<and>
        expand_to_ratio (y_data (green md)) 50000 = Inr 34500 \<and>
        expand_to_ratio (x_data (blue md)) 50000 = Inr 7500 \<and>
        expand_to_ratio (y_data (blue md)) 50000 = Inr 3000 \<and>
        expand_to_ratio (x_data (red md)) 50000 = Inr 34000 \<and>
        expand_to_ratio (y_data (red md)) 50000 = Inr 16000 \<and>
        expand_to_ratio (x_data (white_point md)) 50000 = Inr 15635 \<and>
        expand_to_ratio (y_data (white_point md)) 50000 = Inr 16450 \<and>
        expand_to_ratio (max_luminance md) 10000 = Inr 10000000 \<and>
        expand_to_ratio (min_luminance md) 10000 = Inr 1 \<and>
        MasteringDisplayData_to_libsvtav1_params md =
          Inr ''mastering-display=G(0.2650,0.6900)B(0.1500,0.0600)R(0.6800,0.3200)WP(0.3127,0.3290)L(1000.0000,0.0001)''"
  by (simp add: mastering_block_def MasteringDisplayData_init_def MDItemColorXY_init_def
      getitem_def MDItem_init_def py_int_eval float_eval expand_to_ratio_def
      MasteringDisplayData_to_libsvtav1_params_def to_libsvtav1_def
      str_nat.simps digit_char_def replicate_numeral)

text \<open>
  Claim C4. The x265 rendering of a Mastering Display Record exists exactly when the ten
  calls of \<open>expand_to_ratio\<close> return, and it is then the string
  \<open>display=G(x,y)B(x,y)R(x,y)WP(x,y)L(max,min)\<close> in which the chromaticity coordinates of
  green, blue, red and the white point, in this order, are the results of
  \<open>expand_to_ratio 50000\<close>, the luminances those of \<open>expand_to_ratio 10000\<close> with the
  maximum before the minimum, each written as a decimal integer.
\<close>

theorem mastering_display_x265_rendering:
  "MasteringDisplayData_to_x265_params md = Inr s \<longleftrightarrow>
     (\<exists>gx gy bx by rx ry wx wy lmax lmin.
        expand_to_ratio (x_data (green md)) 50000 = Inr gx \<and>
        expand_to_ratio (y_data (green md)) 50000 = Inr gy \<and>
        expand_to_ratio (x_data (blue md)) 50000 = Inr bx \<and>
        expand_to_ratio (y_data (blue md)) 50000 = Inr by \<and>
        expand_to_ratio (x_data (red md)) 50000 = Inr rx \<and>
        expand_to_ratio (y_data (red md)) 50000 = Inr ry \<and>
        expand_to_ratio (x_data (white_point md)) 50000 = Inr wx \<and>
        expand_to_ratio (y_data (white_point md)) 50000 = Inr wy \<and>
        expand_to_ratio (max_luminance md) 10000 = Inr lmax \<and>
        expand_to_ratio (min_luminance md) 10000 = Inr lmin \<and>
        s = ''display=G('' @ str_int gx @ '','' @ str_int gy @
            '')B('' @ str_int bx @ '','' @ str_int by @
            '')R('' @ str_int rx @ '','' @ str_int ry @
            '')WP('' @ str_int wx @ '','' @ str_int wy @
            '')L('' @ str_int lmax @ '','' @ str_int lmin @ '')'')"
  by (rule MasteringDisplayData_to_x265_params_Inr_iff)

theorem mastering_display_x265_rendering_witness:
  "\<exists>md. MasteringDisplayData_init mastering_block = Inr md \<and>
     MasteringDisplayData_to_x265_params md =
       Inr ''display=G(13250,34500)B(7500,3000)R(34000,16000)WP(15635,16450)L(10000000,1)''"
proof -
  from mastering_block_values obtain md where
    md: "MasteringDisplayData_init mastering_block = Inr md" and
    v: "expand_to_ratio (x_data (green md)) 50000 = Inr 13250"
       "expand_to_ratio (y_data (green md)) 50000 = Inr 34500"
       "expand_to_ratio (x_data (blue md)) 50000 = Inr 7500"
       "expand_to_ratio (y_data (blue md)) 50000 = Inr 3000"
       "expand_to_ratio (x_data (red md)) 50000 = Inr 34000"
       "expand_to_ratio (y_data (red md)) 50000 = Inr 16000"
       "expand_to_ratio (x_data (white_point md)) 50000 = Inr 15635"
       "expand_to_ratio (y_data (white_point md)) 50000 = Inr 16450"
       "expand_to_ratio (max_luminance md) 10000 = Inr 10000000"
       "expand_to_ratio (min_luminance md) 10000 = Inr 1"
    by blast
  have "MasteringDisplayData_to_x265_params md =
       Inr ''display=G(13250,34500)B(7500,3000)R(34000,16000)WP(15635,16450)L(10000000,1)''"
    unfolding mastering_display_x265_rendering [of md] v
    by (simp add: str_int_eval)
  with md show ?thesis by blast
qed

subsection \<open>A complete frame\<close>

lemma parse_frame_data_reaches_end:
  assumes "ColorData_init fd = Inr cd" and "fd ''side_data_list'' = Some (FList sds)"
    and "map fragments sds = map Inr fs"
  shows "\<exists>l. parse_frame_data fd = Inr (Done l) \<and>
           x265_params l = ColorData_to_x265_params cd @ concat (map fst fs) \<and>
           libsvtav1_params l = ColorData_to_libsvtav1_params cd @ concat (map snd fs)"
proof -
  let ?l = "\<lparr>color_data = cd,
             x265_params = ColorData_to_x265_params cd,
             libaom_av1_params = to_libaom_av1_params cd,
             libsvtav1_params = ColorData_to_libsvtav1_params cd,
             stdout = [''Color Data:'', ColorData_str cd, '''']\<rparr>"
  from scan_side_data_total [OF assms(3)] obtain l0 where l0: "scan_side_data sds ?l = Inr l0"
    by blast
  from scan_side_data_frame [OF l0] obtain fs' where fs': "map fragments sds = map Inr fs'"
    "x265_params l0 = ColorData_to_x265_params cd @ concat (map fst fs')"
    "libsvtav1_params l0 = ColorData_to_libsvtav1_params cd @ concat (map snd fs')"
    by auto
  from fs'(1) assms(3) have "fs' = fs"
    by (simp add: inj_map_eq_map)
  with fs' l0 ColorData_init_present [OF assms(1)] assms(1,2) show ?thesis
    by (simp add: parse_frame_data_def getitem_def)
qed

lemma mastering_block_fragments:
  "fragments mastering_block =
     Inr ('':display=G(13250,34500)B(7500,3000)R(34000,16000)WP(15635,16450)L(10000000,1)'',
          '':mastering-display=G(0.2650,0.6900)B(0.1500,0.0600)R(0.6800,0.3200)WP(0.3127,0.3290)L(1000.0000,0.0001)'')"
proof -
  from mastering_block_values obtain md where
    md: "MasteringDisplayData_init mastering_block = Inr md" and
    v: "expand_to_ratio (x_data (green md)) 50000 = Inr 13250"
       "expand_to_ratio (y_data (green md)) 50000 = Inr 34500"
       "expand_to_ratio (x_data (blue md)) 50000 = Inr 7500"
       "expand_to_ratio (y_data (blue md)) 50000 = Inr 3000"
       "expand_to_ratio (x_data (red md)) 50000 = Inr 34000"
       "expand_to_ratio (y_data (red md)) 50000 = Inr 16000"
       "expand_to_ratio (x_data (white_point md)) 50000 = Inr 15635"
       "expand_to_ratio (y_data (white_point md)) 50000 = Inr 16450"
       "expand_to_ratio (max_luminance md) 10000 = Inr 10000000"
       "expand_to_ratio (min_luminance md) 10000 = Inr 1" and
    c: "MasteringDisplayData_to_libsvtav1_params md =
          Inr ''mastering-display=G(0.2650,0.6900)B(0.1500,0.0600)R(0.6800,0.3200)WP(0.3127,0.3290)L(1000.0000,0.0001)''"
    by blast
  have a: "MasteringDisplayData_to_x265_params md =
       Inr ''display=G(13250,34500)B(7500,3000)R(34000,16000)WP(15635,16450)L(10000000,1)''"
    unfolding MasteringDisplayData_to_x265_params_Inr_iff v
    by (simp add: str_int_eval)
  have "getitem mastering_block ''side_data_type'' = Inr (SStr ''Mastering display metadata'')"
    by (simp add: getitem_def mastering_block_def)
  then show ?thesis
    by (simp add: fragments_def md a c)
qed

theorem libaom_params_independent_of_side_data_witness:
  "\<exists>l. parse_frame_data example_frame = Inr (Done l)
     \<and> libaom_av1_params l =
         ''color-primaries=bt2020:transfer-characteristics=smpte2084:matrix-coefficients=bt2020ncl''
     \<and> to_ffmpeg_options (color_data l) =
         ''-pix_fmt yuv420p10le -colorspace bt2020nc -color_trc smpte2084 -color_primaries bt2020''
     \<and> x265_params l =
         ''colormatrix=bt2020nc:display=G(13250,34500)B(7500,3000)R(34000,16000)WP(15635,16450)L(10000000,1):max-cll=1000,400''"
proof -
  let ?cd = "\<lparr>pix_fmt = ''yuv420p10le'', color_space = ''bt2020nc'',
              color_primaries = ''bt2020'', color_transfer = ''smpte2084''\<rparr>"
  let ?cll = "[''side_data_type'' \<mapsto> SStr ''Content light level metadata'',
               ''max_content'' \<mapsto> SInt 1000, ''max_average'' \<mapsto> SInt 400] :: side_data"
  have cd: "ColorData_init example_frame = Inr ?cd"
    by (simp add: example_frame_def ColorData_init_def getitem_def)
  have sdl: "example_frame ''side_data_list'' = Some (FList [mastering_block, ?cll])"
    by (simp add: example_frame_def)
  have cll: "fragments ?cll = Inr ('':max-cll=1000,400'', '':content-light=1000,400'')"
    by (simp add: fragments_def getitem_def ContentLightLevelData_init_def
        ContentLightLevelData_to_x265_params_def ContentLightLevelData_to_libsvtav1_params_def
        str_int_eval)
  have fr: "map fragments [mastering_block, ?cll] =
     map Inr [('':display=G(13250,34500)B(7500,3000)R(34000,16000)WP(15635,16450)L(10000000,1)'',
          '':mastering-display=G(0.2650,0.6900)B(0.1500,0.0600)R(0.6800,0.3200)WP(0.3127,0.3290)L(1000.0000,0.0001)''),
          ('':max-cll=1000,400'', '':content-light=1000,400'')]"
    by (simp add: mastering_block_fragments cll)
  from parse_frame_data_reaches_end [OF cd sdl fr] obtain l where
    l: "parse_frame_data example_frame = Inr (Done l)" and
    x: "x265_params l = ColorData_to_x265_params ?cd @
         '':display=G(13250,34500)B(7500,3000)R(34000,16000)WP(15635,16450)L(10000000,1):max-cll=1000,400''"
    by auto
  from libaom_params_independent_of_side_data [OF l] cd have
    "color_data l = ?cd" "libaom_av1_params l = to_libaom_av1_params ?cd"
    by auto
  with l x show ?thesis
    by (intro exI [of _ l])
      (simp add: to_libaom_av1_params_def libaom_get_matrix_coefficients_def
        libaom_valid_matrix_coefficients_def libaom_matrix_coefficients_mapping_def
        to_ffmpeg_options_def ColorData_to_x265_params_def x265_valid_color_matrix_def)
qed

section \<open>Properties of the Rational Value\<close>

subsection \<open>Quotients and products that are computed exactly\<close>

lemma bit_length_pos: "0 < n \<Longrightarrow> 0 < bit_length n"
  by (subst bit_length.simps) simp

lemma bit_length_bounds:
  "0 < n \<Longrightarrow> 2 ^ (bit_length n - 1) \<le> n \<and> n < 2 ^ bit_length n"
proof (induction n rule: bit_length.induct)
  case (1 n)
  show ?case
  proof (cases "n div 2 = 0")
    case True
    with 1(2) have "n = 1" by auto
    then show ?thesis
      by (simp add: bit_length.simps [of "Suc 0"] bit_length.simps [of 0])
  next
    case False
    with 1 have ih: "2 ^ (bit_length (n div 2) - 1) \<le> n div 2" "n div 2 < 2 ^ bit_length (n div 2)"
      by auto
    from False have pos: "0 < bit_length (n div 2)"
      by (simp add: bit_length_pos)
    have bl: "bit_length n = Suc (bit_length (n div 2))"
      using 1(2) by (subst bit_length.simps) simp
    from pos have "(2::nat) ^ bit_length (n div 2) = 2 * 2 ^ (bit_length (n div 2) - 1)"
      by (cases "bit_length (n div 2)") simp_all
    with ih show ?thesis
      unfolding bl by simp linarith
  qed
qed

lemma float_exponent_lower:
  assumes "0 < a" and "0 < b"
  shows "b * 2 ^ nat (float_exponent a b) \<le> a * 2 ^ nat (- float_exponent a b)"
proof -
  define la where "la = bit_length a"
  define lb where "lb = bit_length b"
  from bit_length_bounds [OF assms(1)] bit_length_bounds [OF assms(2)]
  have a: "2 ^ (la - 1) \<le> a" and b: "b < 2 ^ lb"
    by (simp_all add: la_def lb_def)
  have lapos: "0 < la" using assms(1) by (simp add: la_def bit_length_pos)
  show ?thesis
  proof (cases "b * 2 ^ nat (int la - int lb) \<le> a * 2 ^ nat (- (int la - int lb))")
    case True
    then show ?thesis
      by (simp add: float_exponent_def Let_def la_def lb_def)
  next
    case False
    then have fe: "float_exponent a b = int la - int lb - 1"
      by (simp add: float_exponent_def Let_def la_def lb_def)
    show ?thesis
    proof (cases "lb < la")
      case True
      then have n: "nat (int la - int lb - 1) = la - 1 - lb" "nat (- (int la - int lb - 1)) = 0"
        by auto
      have "b * 2 ^ (la - 1 - lb) \<le> 2 ^ lb * 2 ^ (la - 1 - lb)"
        using b by simp
      also have "\<dots> = 2 ^ (la - 1)"
        using True by (simp add: power_add [symmetric])
      finally have "b * 2 ^ (la - 1 - lb) \<le> a"
        using a by simp
      then show ?thesis
        unfolding fe n by simp
    next
      case False
      then have n: "nat (int la - int lb - 1) = 0" "nat (- (int la - int lb - 1)) = lb + 1 - la"
        by auto
      have "b \<le> 2 ^ lb" using b by simp
      also have "\<dots> = 2 ^ (la - 1) * 2 ^ (lb + 1 - la)"
        using False lapos by (simp add: power_add [symmetric])
      also have "\<dots> \<le> a * 2 ^ (lb + 1 - la)"
        using a by simp
      finally show ?thesis
        unfolding fe n by simp
    qed
  qed
qed

lemma round_half_even_exact: "0 < b \<Longrightarrow> round_half_even (c * b) b = c"
  by (simp add: round_half_even_def)

text \<open>A quotient that is an integer below \<open>2 ^ 53\<close> is represented exactly.\<close>

lemma round_to_double_exact:
  assumes "0 < b" and "0 < k" and "k < 2 ^ 53"
  shows "\<exists>n. round_to_double (k * b) b = (k * 2 ^ n, - int n)"
proof -
  define E where "E = float_exponent (k * b) b"
  from float_exponent_lower [of "k * b" b] assms
  have lower: "b * 2 ^ nat E \<le> k * b * 2 ^ nat (- E)"
    by (simp add: E_def)
  have "E \<le> 52"
  proof (rule ccontr)
    assume "\<not> E \<le> 52"
    then have "53 \<le> nat E" "nat (- E) = 0" by auto
    then have "(2::nat) ^ 53 \<le> 2 ^ nat E"
      using power_increasing [of 53 "nat E" "2::nat"] by simp
    moreover from lower \<open>nat (- E) = 0\<close> assms(1) have "2 ^ nat E \<le> k"
      by simp
    ultimately show False using assms(3) by simp
  qed
  define e where "e = max (E - 52) (- 1074)"
  have e: "e \<le> 0" using \<open>E \<le> 52\<close> by (simp add: e_def)
  then have ne: "nat e = 0" by simp
  have "round_to_double (k * b) b =
          (round_half_even (k * b * 2 ^ nat (- e)) (b * 2 ^ nat e), e)"
    by (simp add: round_to_double_def Let_def E_def e_def)
  then have "round_to_double (k * b) b = (round_half_even (k * b * 2 ^ nat (- e)) b, e)"
    by (simp add: ne)
  also have "k * b * 2 ^ nat (- e) = (k * 2 ^ nat (- e)) * b"
    by simp
  also have "round_half_even \<dots> b = k * 2 ^ nat (- e)"
    using assms(1) by (rule round_half_even_exact)
  finally show ?thesis
    using e by (intro exI [of _ "nat (- e)"]) simp
qed


lemma make_float_exact:
  assumes "0 < b" and "k < 2 ^ 53"
  shows "\<exists>n. make_float s (k * b) b = Finite s (k * 2 ^ n) (- int n)"
proof (cases "k = 0")
  case True
  then show ?thesis
    by (intro exI [of _ 0]) (simp add: make_float_def)
next
  case False
  with round_to_double_exact [OF assms(1) _ assms(2)] obtain n where
    n: "round_to_double (k * b) b = (k * 2 ^ n, - int n)"
    by auto
  have "\<not> (0 \<le> - int n \<and> (2::nat) ^ 1024 \<le> k * 2 ^ n * 2 ^ nat (- int n))"
  proof (cases "n = 0")
    case True
    have "(2::nat) ^ 53 < 2 ^ 1024" by simp
    with assms(2) have "k < 2 ^ 1024" by (rule less_trans)
    with True show ?thesis by simp
  next
    case False
    then show ?thesis by simp
  qed
  with False assms(1) n show ?thesis
    by (intro exI [of _ n]) (simp add: make_float_def)
qed

lemma int_true_div_exact:
  assumes "den \<noteq> 0" and "\<bar>q\<bar> < 2 ^ 53"
  shows "\<exists>n. int_true_div (q * den) den =
           Inr (Finite ((q * den < 0) \<noteq> (den < 0)) (nat \<bar>q\<bar> * 2 ^ n) (- int n))"
proof -
  from assms(2) have "nat \<bar>q\<bar> < 2 ^ 53"
    by (simp add: nat_less_iff)
  moreover from assms(1) have "0 < nat \<bar>den\<bar>" by simp
  ultimately obtain n where
    "make_float ((q * den < 0) \<noteq> (den < 0)) (nat \<bar>q\<bar> * nat \<bar>den\<bar>) (nat \<bar>den\<bar>) =
       Finite ((q * den < 0) \<noteq> (den < 0)) (nat \<bar>q\<bar> * 2 ^ n) (- int n)"
    using make_float_exact by blast
  moreover have "nat \<bar>q * den\<bar> = nat \<bar>q\<bar> * nat \<bar>den\<bar>"
    by (simp add: abs_mult nat_mult_distrib)
  ultimately show ?thesis
    using assms(1) by (intro exI [of _ n]) (simp add: int_true_div_def)
qed

lemma int_to_float_exact:
  assumes "\<bar>i\<bar> < 2 ^ 53"
  shows "\<exists>n. int_to_float i = Inr (Finite (i < 0) (nat \<bar>i\<bar> * 2 ^ n) (- int n))"
proof -
  from assms have "nat \<bar>i\<bar> < 2 ^ 53"
    by (simp add: nat_less_iff)
  with make_float_exact [of 1 "nat \<bar>i\<bar>" "i < 0"] obtain n where
    "make_float (i < 0) (nat \<bar>i\<bar>) 1 = Finite (i < 0) (nat \<bar>i\<bar> * 2 ^ n) (- int n)"
    by auto
  then show ?thesis
    by (intro exI [of _ n]) (simp add: int_to_float_def)
qed

lemma float_mul_exact:
  assumes "k1 * k2 < 2 ^ 53"
  shows "\<exists>n. float_mul (Finite s1 (k1 * 2 ^ n1) (- int n1)) (Finite s2 (k2 * 2 ^ n2) (- int n2)) =
           Finite (s1 \<noteq> s2) (k1 * k2 * 2 ^ n) (- int n)"
proof -
  have "- (- int n1 + - int n2) = int (n1 + n2)"
    by simp
  then have e: "nat (- (- int n1 + - int n2)) = n1 + n2"
    by (simp only: nat_int)
  have e0: "nat (- int n1 + - int n2) = 0"
    by simp
  have a: "k1 * 2 ^ n1 * (k2 * 2 ^ n2) * 2 ^ 0 = (k1 * k2) * (2::nat) ^ (n1 + n2)"
    by (simp add: power_add)
  from make_float_exact [of "2 ^ (n1 + n2)" "k1 * k2" "s1 \<noteq> s2"] assms obtain n where
    "make_float (s1 \<noteq> s2) (k1 * k2 * 2 ^ (n1 + n2)) (2 ^ (n1 + n2)) =
       Finite (s1 \<noteq> s2) (k1 * k2 * 2 ^ n) (- int n)"
    by auto
  then show ?thesis
    unfolding float_mul.simps e e0 a by (rule exI)
qed

lemma int_of_float_exact:
  "int_of_float (Finite s (k * 2 ^ n) (- int n)) = Inr (if s then - int k else int k)"
  by (cases "n = 0") simp_all

text \<open>
  Claim C1, as amended. \<open>expand_to_ratio\<close> divides the target denominator by the
  denominator in floating point, multiplies by the numerator and truncates. When the
  denominator divides the positive target denominator \<open>d < 2 ^ 53\<close> and the result is
  below \<open>2 ^ 53\<close> in absolute value, every step is exact: the call returns
  \<open>numerator * (d div denominator)\<close>, which is also the exact rational
  \<open>numerator * d / denominator\<close> rounded to the nearest integer.
\<close>

theorem expand_to_ratio_exact_when_divisible:
  assumes "0 < d" and "d < 2 ^ 53" and "denominator R dvd d"
    and "\<bar>numerator R * (d div denominator R)\<bar> < 2 ^ 53"
  shows "expand_to_ratio R d = Inr (numerator R * (d div denominator R))
         \<and> numerator R * (d div denominator R) = exact_rounded_ratio R d"
proof -
  define num where "num = numerator R"
  define den where "den = denominator R"
  define q where "q = d div den"
  from assms(3) have d: "d = q * den"
    by (simp add: q_def den_def)
  with assms(1) have den: "den \<noteq> 0" and q0: "q \<noteq> 0"
    by auto
  from d assms(1) den have sgn: "q < 0 \<longleftrightarrow> den < 0"
    by (metis mult_less_0_iff not_less_iff_gr_or_eq zero_less_mult_iff)
  from den have "1 \<le> \<bar>den\<bar>"
    by arith
  then have "\<bar>q\<bar> * 1 \<le> \<bar>q\<bar> * \<bar>den\<bar>"
    by (intro mult_left_mono) simp_all
  then have "\<bar>q\<bar> \<le> \<bar>q\<bar> * \<bar>den\<bar>"
    by simp
  also have "\<dots> = d"
    using assms(1) by (simp add: d abs_mult [symmetric])
  finally have q: "\<bar>q\<bar> < 2 ^ 53"
    using assms(2) by simp
  from q0 have "1 \<le> \<bar>q\<bar>"
    by arith
  then have "\<bar>num\<bar> * 1 \<le> \<bar>num\<bar> * \<bar>q\<bar>"
    by (intro mult_left_mono) simp_all
  then have "\<bar>num\<bar> \<le> \<bar>num\<bar> * \<bar>q\<bar>"
    by simp
  with assms(4) have nq: "\<bar>num\<bar> * \<bar>q\<bar> < 2 ^ 53" and n: "\<bar>num\<bar> < 2 ^ 53"
    by (simp_all add: abs_mult num_def q_def den_def)
  from int_true_div_exact [OF den q] assms(1) obtain n1 where
    r: "int_true_div d den = Inr (Finite (den < 0) (nat \<bar>q\<bar> * 2 ^ n1) (- int n1))"
    by (auto simp: d [symmetric])
  from int_to_float_exact [OF n] obtain n2 where
    f: "int_to_float num = Inr (Finite (num < 0) (nat \<bar>num\<bar> * 2 ^ n2) (- int n2))"
    by blast
  from nq have "nat \<bar>num\<bar> * nat \<bar>q\<bar> < 2 ^ 53"
    by (simp add: nat_mult_distrib [symmetric] nat_less_iff)
  from float_mul_exact [OF this] obtain n3 where
    m: "float_mul (Finite (num < 0) (nat \<bar>num\<bar> * 2 ^ n2) (- int n2))
                  (Finite (den < 0) (nat \<bar>q\<bar> * 2 ^ n1) (- int n1)) =
        Finite ((num < 0) \<noteq> (den < 0)) (nat \<bar>num\<bar> * nat \<bar>q\<bar> * 2 ^ n3) (- int n3)"
    by blast
  have v: "(if (num < 0) \<noteq> (den < 0) then - int (nat \<bar>num\<bar> * nat \<bar>q\<bar>)
           else int (nat \<bar>num\<bar> * nat \<bar>q\<bar>)) = num * q"
    using sgn by (auto simp: abs_if mult_less_0_iff not_less)
  have "expand_to_ratio R d =
          int_of_float (float_mul (Finite (num < 0) (nat \<bar>num\<bar> * 2 ^ n2) (- int n2))
                                  (Finite (den < 0) (nat \<bar>q\<bar> * 2 ^ n1) (- int n1)))"
    by (simp add: expand_to_ratio_def num_def [symmetric] den_def [symmetric] r f
        del: float_mul.simps)
  also have "\<dots> = Inr (num * q)"
    unfolding m int_of_float_exact v by (rule refl)
  finally have "expand_to_ratio R d = Inr (num * q)" .
  moreover have "exact_rounded_ratio R d = num * q"
  proof -
    have "rat_of_int (num * d) / rat_of_int den = rat_of_int (num * q)"
      using den by (simp add: d)
    then show ?thesis
      by (simp add: exact_rounded_ratio_def num_def [symmetric] den_def [symmetric]
          del: of_int_mult)
  qed
  ultimately show ?thesis
    by (simp add: num_def den_def q_def)
qed

theorem expand_to_ratio_exact_when_divisible_witness:
  "MDItem_init ''17/25'' =
     Inr \<lparr>raw_value = ''17/25'', numerator = 17, denominator = 25,
          float_value = Finite False 6124895493223875 (- 53)\<rparr>
   \<and> expand_to_ratio
       \<lparr>raw_value = ''17/25'', numerator = 17, denominator = 25,
        float_value = Finite False 6124895493223875 (- 53)\<rparr> 50000 = Inr 34000
   \<and> exact_rounded_ratio
       \<lparr>raw_value = ''17/25'', numerator = 17, denominator = 25,
        float_value = Finite False 6124895493223875 (- 53)\<rparr> 50000 = 34000"
  using expand_to_ratio_exact_when_divisible
    [of 50000 "\<lparr>raw_value = ''17/25'', numerator = 17, denominator = 25,
                 float_value = Finite False 6124895493223875 (- 53)\<rparr>"]
  by (simp add: MDItem_init_def py_int_eval float_eval)

text \<open>
  Claim C1 as stated fails: for the Rational Value parsed from \<open>2/3\<close> and the target
  denominator 10 the code computes \<open>int(2 * (10 / 3)) = int(6.66...) = 6\<close>, while the
  exact value \<open>20 / 3\<close> rounds to 7.
\<close>

theorem expand_to_ratio_not_rounded_counterexample:
  "MDItem_init ''2/3'' =
     Inr \<lparr>raw_value = ''2/3'', numerator = 2, denominator = 3,
          float_value = Finite False 6004799503160661 (- 53)\<rparr>
   \<and> expand_to_ratio
       \<lparr>raw_value = ''2/3'', numerator = 2, denominator = 3,
        float_value = Finite False 6004799503160661 (- 53)\<rparr> 10 = Inr 6
   \<and> exact_rounded_ratio
       \<lparr>raw_value = ''2/3'', numerator = 2, denominator = 3,
        float_value = Finite False 6004799503160661 (- 53)\<rparr> 10 = 7
   \<and> expand_to_ratio
       \<lparr>raw_value = ''2/3'', numerator = 2, denominator = 3,
        float_value = Finite False 6004799503160661 (- 53)\<rparr> 10 \<noteq>
     Inr (exact_rounded_ratio
       \<lparr>raw_value = ''2/3'', numerator = 2, denominator = 3,
        float_value = Finite False 6004799503160661 (- 53)\<rparr> 10)"
proof -
  have "exact_rounded_ratio
       \<lparr>raw_value = ''2/3'', numerator = 2, denominator = 3,
        float_value = Finite False 6004799503160661 (- 53)\<rparr> 10 = 7"
    unfolding exact_rounded_ratio_def by (rule round_unique) simp_all
  then show ?thesis
    by (simp add: MDItem_init_def py_int_eval float_eval expand_to_ratio_def)
qed

end
